theory Spec2Isabelle
  imports Main "HOL-Library.Char_ord" "HOL-Library.List_Lexorder"
begin

section \<open>GridLAB-D TMY3 reader (source/tmy3.py)\<close>

text \<open>
  The module is embedded function by function.  Python exceptions are values of
  \<open>error\<close>; a function that may raise returns \<open>error + 'a\<close> with \<open>Inl\<close> the
  exception.  Strings are \<open>char list\<close>: a character is a byte, so only ASCII
  digits and ASCII white space are recognised by the library functions below.
\<close>

datatype error =
    ValueError
  | KeyError string
  | NameError string
  | IndexError
  | ParserError
  | EmptyDataError
  | AttributeError
  | TypeError
  | OSError int string string

subsection \<open>Built-in string operations used by the module\<close>

definition is_space :: "char \<Rightarrow> bool" where
  "is_space c = (let n = (of_char c :: nat) in (9 \<le> n \<and> n \<le> 13) \<or> (28 \<le> n \<and> n \<le> 32))"

definition is_digit :: "char \<Rightarrow> bool" where
  "is_digit c = (let n = (of_char c :: nat) in 48 \<le> n \<and> n \<le> 57)"

definition digit_val :: "char \<Rightarrow> nat" where
  "digit_val c = of_char c - 48"

text \<open>\<open>str.strip()\<close>: white space is removed at both ends.\<close>

definition strip :: "string \<Rightarrow> string" where
  "strip s = rev (dropWhile is_space (rev (dropWhile is_space s)))"

text \<open>\<open>str.split(c)\<close> with a one-character separator; the result is never empty
  and \<open>''''.split(c)\<close> is \<open>['''']\<close>.\<close>

fun split_on :: "char \<Rightarrow> string \<Rightarrow> string list" where
  "split_on c [] = [[]]"
| "split_on c (x # xs) =
     (if x = c then [] # split_on c xs
      else (case split_on c xs of
              [] \<Rightarrow> [[x]]
            | w # ws \<Rightarrow> (x # w) # ws))"

text \<open>The digit part of a Python numeric literal: digits, with single underscores
  allowed between two digits.  The accumulator is the value read so far.\<close>

fun digitpart :: "nat \<Rightarrow> string \<Rightarrow> nat option" where
  "digitpart acc [] = Some acc"
| "digitpart acc [c] = (if is_digit c then Some (acc * 10 + digit_val c) else None)"
| "digitpart acc (c # d # cs) =
     (if is_digit c then digitpart (acc * 10 + digit_val c) (d # cs)
      else if c = CHR ''_'' \<and> is_digit d then digitpart (acc * 10 + digit_val d) cs
      else None)"

definition digits_value :: "string \<Rightarrow> nat option" where
  "digits_value s =
     (case s of
        [] \<Rightarrow> None
      | c # cs \<Rightarrow> if is_digit c then digitpart (digit_val c) cs else None)"

text \<open>\<open>int(s)\<close> for a string in base 10: surrounding white space, an optional
  sign, then a digit part.\<close>

definition py_int :: "string \<Rightarrow> error + int" where
  "py_int s =
     (case strip s of
        [] \<Rightarrow> Inl ValueError
      | c # cs \<Rightarrow>
          if c = CHR ''-'' then
            (case digits_value cs of None \<Rightarrow> Inl ValueError | Some n \<Rightarrow> Inr (- int n))
          else if c = CHR ''+'' then
            (case digits_value cs of None \<Rightarrow> Inl ValueError | Some n \<Rightarrow> Inr (int n))
          else
            (case digits_value (c # cs) of None \<Rightarrow> Inl ValueError | Some n \<Rightarrow> Inr (int n)))"

subsection \<open>The datetime module: dates, times, ordinals\<close>

record date =
  year :: int
  month :: int
  day :: int

record time =
  hour :: int
  minute :: int
  second :: int


definition is_leap :: "int \<Rightarrow> bool" where
  "is_leap y = (y mod 4 = 0 \<and> (y mod 100 \<noteq> 0 \<or> y mod 400 = 0))"

definition days_in_month :: "int \<Rightarrow> int \<Rightarrow> int" where
  "days_in_month y m =
     (if m = 2 then (if is_leap y then 29 else 28)
      else if m = 4 \<or> m = 6 \<or> m = 9 \<or> m = 11 then 30
      else 31)"




text \<open>The constructor checks of \<open>datetime.date\<close> and \<open>datetime.time\<close>
  (\<open>MINYEAR = 1\<close>, \<open>MAXYEAR = 9999\<close>).\<close>

definition make_date :: "int \<Rightarrow> int \<Rightarrow> int \<Rightarrow> error + date" where
  "make_date y m d =
     (if \<not> (1 \<le> y \<and> y \<le> 9999) then Inl ValueError
      else if \<not> (1 \<le> m \<and> m \<le> 12) then Inl ValueError
      else if \<not> (1 \<le> d \<and> d \<le> days_in_month y m) then Inl ValueError
      else Inr \<lparr>year = y, month = m, day = d\<rparr>)"

definition make_time :: "int \<Rightarrow> error + time" where
  "make_time h =
     (if 0 \<le> h \<and> h \<le> 23 then Inr \<lparr>hour = h, minute = 0, second = 0\<rparr>
      else Inl ValueError)"


text \<open>The three fields of the format \<open>%m/%d/%Y\<close>, as \<open>_strptime\<close> matches them:
  \<open>1[0-2]|0[1-9]|[1-9]\<close> for the month, \<open>3[0-1]|[1-2]\d|0[1-9]|[1-9]| [1-9]\<close>
  for the day and \<open>\d\d\d\d\<close> for the year.\<close>

definition month_field :: "string \<Rightarrow> int option" where
  "month_field s =
     (case s of
        [a] \<Rightarrow> if is_digit a \<and> a \<noteq> CHR ''0'' then Some (int (digit_val a)) else None
      | [a, b] \<Rightarrow>
          if a = CHR ''1'' \<and> is_digit b \<and> digit_val b \<le> 2 then Some (10 + int (digit_val b))
          else if a = CHR ''0'' \<and> is_digit b \<and> b \<noteq> CHR ''0'' then Some (int (digit_val b))
          else None
      | _ \<Rightarrow> None)"

definition day_field :: "string \<Rightarrow> int option" where
  "day_field s =
     (case s of
        [a] \<Rightarrow> if is_digit a \<and> a \<noteq> CHR ''0'' then Some (int (digit_val a)) else None
      | [a, b] \<Rightarrow>
          if a = CHR ''3'' \<and> is_digit b \<and> digit_val b \<le> 1 then Some (30 + int (digit_val b))
          else if (a = CHR ''1'' \<or> a = CHR ''2'') \<and> is_digit b
            then Some (int (digit_val a) * 10 + int (digit_val b))
          else if (a = CHR ''0'' \<or> a = CHR '' '') \<and> is_digit b \<and> b \<noteq> CHR ''0''
            then Some (int (digit_val b))
          else None
      | _ \<Rightarrow> None)"

definition year_field :: "string \<Rightarrow> int option" where
  "year_field s =
     (case s of
        [a, b, c, d] \<Rightarrow>
          if is_digit a \<and> is_digit b \<and> is_digit c \<and> is_digit d
          then Some (int (digit_val a) * 1000 + int (digit_val b) * 100
                     + int (digit_val c) * 10 + int (digit_val d))
          else None
      | _ \<Rightarrow> None)"

text \<open>\<open>datetime.datetime.strptime(dt, "%m/%d/%Y")\<close>, keeping the calendar date
  (the time of day of the result is midnight).\<close>

definition strptime_mdY :: "string \<Rightarrow> error + date" where
  "strptime_mdY s =
     (case split_on CHR ''/'' s of
        [ms, ds, ys] \<Rightarrow>
          (case (month_field ms, day_field ds, year_field ys) of
             (Some m, Some d, Some y) \<Rightarrow> make_date y m d
           | _ \<Rightarrow> Inl ValueError)
      | _ \<Rightarrow> Inl ValueError)"

text \<open>\<open>d.replace(year=y)\<close> builds a new date and so repeats the constructor's
  checks.\<close>

definition replace_year :: "int \<Rightarrow> date \<Rightarrow> error + date" where
  "replace_year y d = make_date y (month d) (day d)"

subsection \<open>The cell converters of \<open>TMY3.__init__\<close>\<close>

text \<open>\<open>get_date\<close> tests \<open>if coerce_year:\<close>, which is false for \<open>None\<close> and for \<open>0\<close>.\<close>

definition get_date :: "int option \<Rightarrow> string \<Rightarrow> error + date" where
  "get_date coerce_year dt =
     (if coerce_year \<noteq> None \<and> coerce_year \<noteq> Some 0 then
        (case strptime_mdY dt of
           Inl e \<Rightarrow> Inl e
         | Inr d \<Rightarrow> replace_year (the coerce_year) d)
      else strptime_mdY dt)"

definition get_time :: "string \<Rightarrow> error + time" where
  "get_time dt =
     (case split_on CHR '':'' dt of
        [] \<Rightarrow> Inl IndexError
      | h # _ \<Rightarrow>
          (case py_int h of
             Inl e \<Rightarrow> Inl e
           | Inr n \<Rightarrow> make_time (n - 1)))"

subsection \<open>The attribute table and the units dictionary\<close>

text \<open>A dict literal keeps, for a key written twice, the value written last.\<close>

definition dict_of :: "('k \<times> 'v) list \<Rightarrow> ('k \<rightharpoonup> 'v)" where
  "dict_of kvs = map_of (rev kvs)"

definition attribute_items :: "(string \<times> string) list" where
  "attribute_items =
     [(''DateTime'', ''datetime''),
      (''Date (MM/DD/YYYY)'', ''date''),
      (''Time (HH:MM)'', ''hour''),
      (''ETR (W/m^2)'', ''etr''),
      (''ETRN (W/m^2)'', ''etrn''),
      (''GHI (W/m^2)'', ''ghi''),
      (''DNI (W/m^2)'', ''dni''),
      (''DHI (W/m^2)'', ''dhi''),
      (''GH illum (lx)'', ''ghillum''),
      (''DN illum (lx)'', ''dnillum''),
      (''DH illum (lx)'', ''dhillum''),
      (''Zenith lum (cd/m^2)'', ''zenlu ''),
      (''TotCld (tenths)'', ''totcld''),
      (''OpqCld (tenths)'', ''opqcld''),
      (''Dry-bulb (C)'', ''drybulb''),
      (''Dew-point (C)'', ''dewpoint''),
      (''RHum (%)'', ''rhum''),
      (''Pressure (mbar)'', ''pressure''),
      (''Wdir (degrees)'', ''wdir''),
      (''Wspd (m/s)'', ''wspd''),
      (''Hvis (m)'', ''hvis''),
      (''CeilHgt (m)'', ''ceilhgt''),
      (''Pwat (cm)'', ''pwat''),
      (''AOD (unitless)'', ''aod''),
      (''Alb (unitless)'', ''alb''),
      (''Lprecip depth (mm)'', ''lprecipdepth''),
      (''Lprecip quantity (hr)'', ''lprecipquantity'')]"

definition units_items :: "(string \<times> string) list" where
  "units_items =
     [(''etr'', ''W/m^2''),
      (''etrn'', ''W/m^2''),
      (''ghi'', ''W/m^2''),
      (''dni'', ''W/m^2''),
      (''dhi'', ''W/m^2''),
      (''ghillum'', ''lx''),
      (''ghillum'', ''lx''),
      (''dnillum'', ''lx''),
      (''zenlu'', ''cd/m^2 ''),
      (''totcld'', ''0.1unit''),
      (''opqcld'', ''0.1unit''),
      (''drybulb'', ''degC''),
      (''dewpoint'', ''degC''),
      (''rhum'', ''%''),
      (''pressure'', ''mbar''),
      (''wdir'', ''deg''),
      (''wspd'', ''m/s''),
      (''hvis'', ''m''),
      (''ceilhgt'', ''m''),
      (''pwat'', ''cm''),
      (''aod'', ''unit''),
      (''alb'', ''unit''),
      (''lprecipdepth'', ''mm''),
      (''lprecipquantity'', ''hr'')]"

definition units :: "string \<rightharpoonup> string" where
  "units = dict_of units_items"


subsection \<open>Floating-point literals\<close>








subsection \<open>Reading tables with pandas\<close>











subsection \<open>The class \<open>TMY3\<close>\<close>














subsection \<open>Files, the network and the module's configuration\<close>

text \<open>
  The world the module acts on: the text files that exist, by path, and the log
  of the URLs requested with \<open>requests.get\<close>, oldest first.  The remote server
  is a function from the URL to its response.  Directories, permissions and
  transport failures are not modelled: a file can always be written.
\<close>

record world =
  files :: "string \<rightharpoonup> string"
  requests_log :: "string list"

record response =
  status_code :: int
  resp_text :: string

type_synonym config = "string \<rightharpoonup> string"

text \<open>A file opened with mode \<open>"rt"\<close> is read with universal newlines: \<open>\r\n\<close>
  and a lone \<open>\r\<close> arrive as \<open>\n\<close>.  Mode \<open>"wt"\<close> writes the text as it is.\<close>

fun universal_newlines :: "string \<Rightarrow> string" where
  "universal_newlines [] = []"
| "universal_newlines [c] = (if c = CHR 0x0D then [CHR 0x0A] else [c])"
| "universal_newlines (c # d # cs) =
     (if c = CHR 0x0D then
        (if d = CHR 0x0A then CHR 0x0A # universal_newlines cs
         else CHR 0x0A # universal_newlines (d # cs))
      else c # universal_newlines (d # cs))"

definition read_text :: "world \<Rightarrow> string \<Rightarrow> error + string" where
  "read_text w path =
     (case files w path of
        None \<Rightarrow> Inl (OSError 2 ''No such file or directory'' path)
      | Some c \<Rightarrow> Inr (universal_newlines c))"

definition write_text :: "string \<Rightarrow> string \<Rightarrow> world \<Rightarrow> world" where
  "write_text path txt w = w\<lparr>files := (files w)(path \<mapsto> txt)\<rparr>"

definition config_dir :: "string \<Rightarrow> string" where
  "config_dir home = home @ ''/.gridlabd-weather''"

definition cache_dir :: "string \<Rightarrow> string" where
  "cache_dir home = config_dir home @ ''/data''"

definition default_config :: config where
  "default_config =
     dict_of
       [(''server'', ''https://github.com/''),
        (''organization'', ''slacgismo''),
        (''repository'', ''gridlabd-weather''),
        (''branch'', ''master''),
        (''country'', ''US''),
        (''index_name'', ''.index'')]"







definition config_get :: "config \<Rightarrow> string \<Rightarrow> error + string" where
  "config_get cfg key = (case cfg key of None \<Rightarrow> Inl (KeyError key) | Some v \<Rightarrow> Inr v)"

definition data_url :: "config \<Rightarrow> string \<Rightarrow> error + string" where
  "data_url cfg filename =
     (case config_get cfg ''server'' of Inl e \<Rightarrow> Inl e | Inr server \<Rightarrow>
     (case config_get cfg ''organization'' of Inl e \<Rightarrow> Inl e | Inr organization \<Rightarrow>
     (case config_get cfg ''repository'' of Inl e \<Rightarrow> Inl e | Inr repository \<Rightarrow>
     (case config_get cfg ''branch'' of Inl e \<Rightarrow> Inl e | Inr branch \<Rightarrow>
     (case config_get cfg ''country'' of Inl e \<Rightarrow> Inl e | Inr country \<Rightarrow>
        Inr (server @ organization @ ''/'' @ repository @ ''/raw/'' @ branch @ ''/''
             @ country @ ''/'' @ filename))))))"

definition get_data :: "(string \<Rightarrow> response) \<Rightarrow> string \<Rightarrow> config \<Rightarrow> string \<Rightarrow> bool \<Rightarrow> world
    \<Rightarrow> (error + string) \<times> world" where
  "get_data remote home cfg filename cache_filename_only w =
     (let cache_file = cache_dir home @ ''/'' @ filename in
      if files w cache_file \<noteq> None then
        (if cache_filename_only then (Inr cache_file, w)
         else (read_text w cache_file, w))
      else
        (case data_url cfg filename of
           Inl e \<Rightarrow> (Inl e, w)
         | Inr url \<Rightarrow>
             (let r = remote url;
                  w1 = w\<lparr>requests_log := requests_log w @ [url]\<rparr>
              in if status_code r = 200 then
                   (let w2 = write_text cache_file (resp_text r) w1
                    in if cache_filename_only then (Inr cache_file, w2)
                       else (Inr (resp_text r), w2))
                 else (Inl (OSError 2 ''file not found'' cache_file), w1))))"

text \<open>\<open>sorted\<close> on strings: the order of the code points, character by character.\<close>

definition get_index :: "(string \<Rightarrow> response) \<Rightarrow> string \<Rightarrow> config \<Rightarrow> world
    \<Rightarrow> (error + string list) \<times> world" where
  "get_index remote home cfg w =
     (case config_get cfg ''index_name'' of
        Inl e \<Rightarrow> (Inl e, w)
      | Inr index_name \<Rightarrow>
          (case get_data remote home cfg index_name False w of
             (Inl e, w') \<Rightarrow> (Inl e, w')
           | (Inr content, w') \<Rightarrow> (Inr (sort (split_on (CHR 0x0A) (strip content))), w')))"

subsection \<open>The station file format\<close>

text \<open>
  The definitions of this part describe inputs: how a date and an hour are
  written in a cell, the calendar of the 365 days of a typical year, and when
  the lines of a file are a station file.
\<close>

definition digit_char :: "nat \<Rightarrow> char" where
  "digit_char k = ''0123456789'' ! k"

definition two_digits :: "nat \<Rightarrow> string" where
  "two_digits n = [digit_char (n div 10 mod 10), digit_char (n mod 10)]"

definition four_digits :: "nat \<Rightarrow> string" where
  "four_digits n =
     [digit_char (n div 1000 mod 10), digit_char (n div 100 mod 10),
      digit_char (n div 10 mod 10), digit_char (n mod 10)]"

definition date_text :: "nat \<Rightarrow> nat \<Rightarrow> nat \<Rightarrow> string" where
  "date_text m d y = two_digits m @ ''/'' @ two_digits d @ ''/'' @ four_digits y"













section \<open>Properties\<close>

subsection \<open>Digits and separators\<close>

lemma below_ten:
  "k < 10 \<Longrightarrow> k = 0 \<or> k = 1 \<or> k = 2 \<or> k = 3 \<or> k = 4 \<or> k = 5 \<or> k = 6 \<or> k = 7 \<or> k = 8 \<or> k = (9::nat)"
  by arith

lemma is_digit_digit_char: "k < 10 \<Longrightarrow> is_digit (digit_char k)"
  using below_ten [of k] by (auto simp: is_digit_def digit_char_def)

lemma digit_val_digit_char: "k < 10 \<Longrightarrow> digit_val (digit_char k) = k"
  using below_ten [of k] by (auto simp: digit_val_def digit_char_def)

lemma digit_char_eq_iff:
  "k < 10 \<Longrightarrow> digit_char k = CHR ''0'' \<longleftrightarrow> k = 0"
  "k < 10 \<Longrightarrow> digit_char k = CHR ''1'' \<longleftrightarrow> k = 1"
  "k < 10 \<Longrightarrow> digit_char k = CHR ''2'' \<longleftrightarrow> k = 2"
  "k < 10 \<Longrightarrow> digit_char k = CHR ''3'' \<longleftrightarrow> k = 3"
  using below_ten [of k] by (auto simp: digit_char_def)

lemma digit_char_not_sep:
  "k < 10 \<Longrightarrow> digit_char k \<noteq> CHR ''/''"
  "k < 10 \<Longrightarrow> digit_char k \<noteq> CHR '':''"
  "k < 10 \<Longrightarrow> digit_char k \<noteq> CHR '',''"
  "k < 10 \<Longrightarrow> digit_char k \<noteq> CHR ''-''"
  "k < 10 \<Longrightarrow> digit_char k \<noteq> CHR ''+''"
  "k < 10 \<Longrightarrow> digit_char k \<noteq> CHR '' ''"
  using below_ten [of k] by (auto simp: digit_char_def)

lemma digit_char_not_space: "k < 10 \<Longrightarrow> \<not> is_space (digit_char k)"
  using below_ten [of k] by (auto simp: digit_char_def is_space_def)

lemma split_on_sep: "c \<notin> set ds \<Longrightarrow> split_on c (ds @ c # rest) = ds # split_on c rest"
  by (induction ds) auto

lemma split_on_none: "c \<notin> set ds \<Longrightarrow> split_on c ds = [ds]"
  by (induction ds) auto

lemma two_digits_split:
  assumes "n < 100"
  obtains a b where "two_digits n = [digit_char a, digit_char b]" "a < 10" "b < 10" "n = a * 10 + b"
proof -
  have "n div 10 < 10" using assms by simp
  then have e: "n div 10 mod 10 = n div 10" by simp
  have "n = n div 10 * 10 + n mod 10" by simp
  then show thesis
    using that [of "n div 10" "n mod 10"] \<open>n div 10 < 10\<close> by (simp add: two_digits_def e)
qed

lemma sep_notin_two_digits:
  "CHR ''/'' \<notin> set (two_digits k)" "CHR '':'' \<notin> set (two_digits k)" "CHR '','' \<notin> set (two_digits k)"
  by (simp_all add: two_digits_def digit_char_not_sep(1,2,3) [THEN not_sym])

lemma sep_notin_four_digits:
  "CHR ''/'' \<notin> set (four_digits k)" "CHR '','' \<notin> set (four_digits k)"
  by (simp_all add: four_digits_def digit_char_not_sep(1,3) [THEN not_sym])

lemma month_field_two_digits:
  assumes "1 \<le> m" "m \<le> 12"
  shows "month_field (two_digits m) = Some (int m)"
proof -
  from assms have "m < 100" by simp
  then obtain a b where ab: "two_digits m = [digit_char a, digit_char b]" "a < 10" "b < 10" "m = a * 10 + b"
    by (rule two_digits_split)
  from assms ab have "a = 0 \<and> 1 \<le> b \<or> a = 1 \<and> b \<le> 2" by linarith
  then show ?thesis
    using ab by (auto simp: month_field_def is_digit_digit_char digit_val_digit_char digit_char_eq_iff)
qed

lemma day_field_two_digits:
  assumes "1 \<le> d" "d \<le> 31"
  shows "day_field (two_digits d) = Some (int d)"
proof -
  from assms have "d < 100" by simp
  then obtain a b where ab: "two_digits d = [digit_char a, digit_char b]" "a < 10" "b < 10" "d = a * 10 + b"
    by (rule two_digits_split)
  from assms ab have "a = 0 \<and> 1 \<le> b \<or> a = 1 \<or> a = 2 \<or> a = 3 \<and> b \<le> 1" by linarith
  then show ?thesis
    using ab by (auto simp: day_field_def is_digit_digit_char digit_val_digit_char digit_char_eq_iff digit_char_not_sep)
qed

lemma horner4: "((a * 10 + b) * 10 + c) * 10 + d = a * 1000 + b * 100 + c * 10 + (d::nat)"
  by simp

lemma digits4:
  assumes "y \<le> 9999"
  shows "(y div 1000 mod 10) * 1000 + (y div 100 mod 10) * 100 + (y div 10 mod 10) * 10 + y mod 10 = (y::nat)"
proof -
  have d: "x = (x div 10) * 10 + x mod 10" for x :: nat by simp
  have e1: "y div 100 = y div 10 div 10" by (simp add: div_mult2_eq)
  have e2: "y div 1000 = y div 10 div 10 div 10" by (simp add: div_mult2_eq)
  have "y div 1000 < 10" using assms by simp
  then have e3: "y div 1000 mod 10 = y div 1000" by simp
  have "y = (y div 10) * 10 + y mod 10" by (rule d)
  also have "y div 10 = (y div 10 div 10) * 10 + y div 10 mod 10" by (rule d)
  also have "y div 10 div 10 = (y div 10 div 10 div 10) * 10 + y div 10 div 10 mod 10" by (rule d)
  finally have "y = ((y div 1000 * 10 + y div 100 mod 10) * 10 + y div 10 mod 10) * 10 + y mod 10"
    by (simp only: e1 e2)
  then have "y = y div 1000 * 1000 + y div 100 mod 10 * 100 + y div 10 mod 10 * 10 + y mod 10"
    by (simp only: horner4)
  then show ?thesis by (simp only: e3)
qed

lemma year_digits_value:
  assumes "y \<le> 9999"
  shows "int (digit_val (digit_char (y div 1000 mod 10))) * 1000
       + int (digit_val (digit_char (y div 100 mod 10))) * 100
       + int (digit_val (digit_char (y div 10 mod 10))) * 10
       + int (digit_val (digit_char (y mod 10))) = int y"
proof -
  have "int ((y div 1000 mod 10) * 1000 + (y div 100 mod 10) * 100 + (y div 10 mod 10) * 10 + y mod 10) = int y"
    using digits4 [OF assms] by (rule arg_cong)
  then show ?thesis
    by (simp only: digit_val_digit_char mod_less_divisor zero_less_numeral of_nat_add of_nat_mult of_nat_numeral)
qed

lemma year_field_four_digits: "y \<le> 9999 \<Longrightarrow> year_field (four_digits y) = Some (int y)"
  using year_digits_value [of y]
  by (simp only: year_field_def four_digits_def list.case is_digit_digit_char mod_less_divisor zero_less_numeral simp_thms if_True)

lemma split_date_text:
  "split_on CHR ''/'' (date_text m d y) = [two_digits m, two_digits d, four_digits y]"
  using split_on_sep [OF sep_notin_two_digits(1)] split_on_none [OF sep_notin_four_digits(1)]
  by (simp add: date_text_def)

lemma strptime_date_text:
  "1 \<le> m \<Longrightarrow> m \<le> 12 \<Longrightarrow> 1 \<le> d \<Longrightarrow> d \<le> 31 \<Longrightarrow> y \<le> 9999 \<Longrightarrow>
   strptime_mdY (date_text m d y) = make_date (int y) (int m) (int d)"
  by (simp add: strptime_mdY_def split_date_text month_field_two_digits day_field_two_digits year_field_four_digits)

lemma days_in_month_le: "days_in_month y m \<le> 31"
  by (simp add: days_in_month_def)

lemma dropWhile_hd: "xs \<noteq> [] \<Longrightarrow> \<not> P (hd xs) \<Longrightarrow> dropWhile P xs = xs"
  by (cases xs) auto

lemma strip_no_space: "s \<noteq> [] \<Longrightarrow> \<not> is_space (hd s) \<Longrightarrow> \<not> is_space (last s) \<Longrightarrow> strip s = s"
  by (simp add: strip_def dropWhile_hd hd_rev)

lemma py_int_two_digits:
  assumes "n < 100"
  shows "py_int (two_digits n) = Inr (int n)"
proof -
  from assms obtain a b where ab: "two_digits n = [digit_char a, digit_char b]" "a < 10" "b < 10" "n = a * 10 + b"
    by (rule two_digits_split)
  have "strip (two_digits n) = two_digits n"
    using ab by (simp add: strip_no_space digit_char_not_space)
  then show ?thesis
    using ab by (simp add: py_int_def digit_char_not_sep digits_value_def is_digit_digit_char digit_val_digit_char)
qed

lemma get_time_time_text_gen:
  assumes "1 \<le> h" "h \<le> 24"
  shows "get_time (two_digits h @ '':'' @ mm) = Inr \<lparr>hour = int h - 1, minute = 0, second = 0\<rparr>"
proof -
  have "h < 100" using assms by simp
  then show ?thesis
    using assms split_on_sep [OF sep_notin_two_digits(2), of h mm]
    by (simp add: get_time_def py_int_two_digits make_time_def)
qed

subsection \<open>The converters\<close>

text \<open>
  C9.  A time cell written \<open>HH:MM\<close> with the hour-ending label \<open>HH\<close> from 01 to 24
  is decoded to the hour \<open>HH - 1\<close>, with minute and second 0, whatever follows
  the colon.  \<open>get_time\<close> has no access to the coerced year, so the result is the
  same with and without one.
\<close>

theorem get_time_hour_ending:
  assumes "1 \<le> h" "h \<le> 24"
  shows "get_time (two_digits h @ '':'' @ mm) = Inr \<lparr>hour = int h - 1, minute = 0, second = 0\<rparr>"
  using assms by (rule get_time_time_text_gen)

theorem get_time_hour_ending_witness:
  "get_time ''24:00'' = Inr \<lparr>hour = 23, minute = 0, second = 0\<rparr>"
  using get_time_hour_ending [of 24 "''00''"]
  by (simp add: two_digits_def digit_char_def)

text \<open>
  C4, as the code has it.  For a date cell \<open>MM/DD/YYYY\<close> that is a date of the
  calendar: without a coerced year the date of the cell is returned; with a
  coerced year \<open>Y\<close> from 1 to 9999 in which the month has that day, the result
  has the year \<open>Y\<close> and the month and day of the cell; this holds for December 31
  with every such \<open>Y\<close>.
\<close>

theorem get_date_coerce:
  assumes "1 \<le> m" "m \<le> 12" "1 \<le> d" "int d \<le> days_in_month (int y) (int m)"
    "1 \<le> y" "y \<le> 9999"
  shows "get_date None (date_text m d y) = Inr \<lparr>year = int y, month = int m, day = int d\<rparr>
    \<and> (1 \<le> Y \<and> Y \<le> 9999 \<and> int d \<le> days_in_month Y (int m) \<longrightarrow>
         get_date (Some Y) (date_text m d y) = Inr \<lparr>year = Y, month = int m, day = int d\<rparr>)
    \<and> (1 \<le> Y \<and> Y \<le> 9999 \<longrightarrow>
         get_date (Some Y) (date_text 12 31 y) = Inr \<lparr>year = Y, month = 12, day = 31\<rparr>)"
proof -
  have d31: "d \<le> 31"
    using assms(4) days_in_month_le [of "int y" "int m"] by linarith
  have p: "strptime_mdY (date_text m d y) = Inr \<lparr>year = int y, month = int m, day = int d\<rparr>"
    using assms d31 by (simp add: strptime_date_text make_date_def)
  have q: "strptime_mdY (date_text 12 31 y) = Inr \<lparr>year = int y, month = 12, day = 31\<rparr>"
    using assms(5,6) strptime_date_text [of 12 31 y] by (simp add: make_date_def days_in_month_def)
  show ?thesis
    using assms p q by (simp add: get_date_def replace_year_def make_date_def days_in_month_def)
qed

theorem get_date_coerce_witness:
  "get_date None ''12/31/1995'' = Inr \<lparr>year = 1995, month = 12, day = 31\<rparr>
   \<and> get_date (Some 2020) ''12/31/1995'' = Inr \<lparr>year = 2020, month = 12, day = 31\<rparr>"
  using get_date_coerce [of 12 31 1995 2020]
  by (simp add: date_text_def two_digits_def four_digits_def digit_char_def days_in_month_def)

text \<open>Outside these conditions: the coerced year 0 is taken by \<open>if coerce_year:\<close>
  for no year, so the year of the cell is kept; and February 29 coerced into a
  year that is not a leap year makes \<open>replace\<close> raise.\<close>

theorem get_date_counterexample:
  "get_date (Some 0) ''01/01/1995'' = Inr \<lparr>year = 1995, month = 1, day = 1\<rparr>
   \<and> get_date (Some 2001) ''02/29/2000'' = Inl ValueError"
  by (simp add: get_date_def strptime_mdY_def month_field_def day_field_def year_field_def
      make_date_def replace_year_def is_digit_def digit_val_def days_in_month_def is_leap_def)

subsection \<open>The units dictionary\<close>

text \<open>
  C3.  The series \<open>dhillum\<close> is an attribute of every loaded dataset, but the
  units dictionary has no entry for it: the literal writes the key \<open>ghillum\<close>
  twice.  The zenith luminance is stored under the attribute name \<open>zenlu\<close>
  followed by a space, while its unit is stored under \<open>zenlu\<close>.  The unit of
  \<open>drybulb\<close> is \<open>degC\<close>.
\<close>

theorem units_dhillum_missing:
  "''dhillum'' \<in> set (map snd attribute_items) \<and> units ''dhillum'' = None
   \<and> ''zenlu '' \<in> set (map snd attribute_items) \<and> units ''zenlu '' = None
   \<and> ''zenlu'' \<notin> set (map snd attribute_items)
   \<and> units ''drybulb'' = Some ''degC''"
  by (simp add: attribute_items_def units_def dict_of_def units_items_def)

subsection \<open>Data acquisition\<close>

lemma universal_newlines_no_cr: "CHR 0x0D \<notin> set (universal_newlines s)"
  by (induction s rule: universal_newlines.induct) auto

lemma universal_newlines_id: "CHR 0x0D \<notin> set s \<Longrightarrow> universal_newlines s = s"
  by (induction s rule: universal_newlines.induct) auto

lemma universal_newlines_idem: "universal_newlines (universal_newlines s) = universal_newlines s"
  by (rule universal_newlines_id) (rule universal_newlines_no_cr)

lemma data_url_default:
  "data_url default_config f = Inr (''https://github.com/slacgismo/gridlabd-weather/raw/master/US/'' @ f)"
  by (simp add: data_url_def config_get_def default_config_def dict_of_def)

lemma index_name_default: "config_get default_config ''index_name'' = Inr ''.index''"
  by (simp add: config_get_def default_config_def dict_of_def)

lemma get_data_hit:
  "files w (cache_dir home @ ''/'' @ filename) = Some c \<Longrightarrow>
   get_data remote home cfg filename only w
     = (Inr (if only then cache_dir home @ ''/'' @ filename else universal_newlines c), w)"
  by (simp add: get_data_def read_text_def)

lemma get_data_miss_ok:
  "files w (cache_dir home @ ''/'' @ filename) = None \<Longrightarrow> data_url cfg filename = Inr url \<Longrightarrow>
   status_code (remote url) = 200 \<Longrightarrow>
   get_data remote home cfg filename only w
     = (Inr (if only then cache_dir home @ ''/'' @ filename else resp_text (remote url)),
        write_text (cache_dir home @ ''/'' @ filename) (resp_text (remote url))
          (w\<lparr>requests_log := requests_log w @ [url]\<rparr>))"
  by (simp add: get_data_def Let_def)

lemma get_data_miss_fail:
  "files w (cache_dir home @ ''/'' @ filename) = None \<Longrightarrow> data_url cfg filename = Inr url \<Longrightarrow>
   status_code (remote url) \<noteq> 200 \<Longrightarrow>
   get_data remote home cfg filename only w
     = (Inl (OSError 2 ''file not found'' (cache_dir home @ ''/'' @ filename)),
        w\<lparr>requests_log := requests_log w @ [url]\<rparr>)"
  by (simp add: get_data_def Let_def)

lemma get_data_miss_keyerror:
  "files w (cache_dir home @ ''/'' @ filename) = None \<Longrightarrow> data_url cfg filename = Inl e \<Longrightarrow>
   get_data remote home cfg filename only w = (Inl e, w)"
  by (simp add: get_data_def Let_def)

text \<open>
  C5, as the code has it.  When the cache file exists the call returns its path
  or its content and leaves the world as it is: nothing is requested.  When a
  call of \<open>get_data\<close> returns a result, a second call for the same name requests
  nothing, and returns the same path, or the content as a text-mode read gives
  it: the first result with its line ends normalised, which is the first result
  itself when that has no carriage return.  The first call requests at most one
  URL.
\<close>

theorem get_data_idempotent:
  "(files w (cache_dir home @ ''/'' @ filename) = Some c \<longrightarrow>
      get_data remote home cfg filename only w
        = (Inr (if only then cache_dir home @ ''/'' @ filename else universal_newlines c), w))
   \<and> (get_data remote home cfg filename only w = (Inr r1, w1) \<longrightarrow>
        get_data remote home cfg filename only w1
          = (Inr (if only then r1 else universal_newlines r1), w1)
        \<and> (CHR 0x0D \<notin> set r1 \<longrightarrow> get_data remote home cfg filename only w1 = (Inr r1, w1))
        \<and> length (requests_log w1) \<le> length (requests_log w) + 1)"
proof (intro conjI impI)
  assume "files w (cache_dir home @ ''/'' @ filename) = Some c"
  then show "get_data remote home cfg filename only w
        = (Inr (if only then cache_dir home @ ''/'' @ filename else universal_newlines c), w)"
    by (rule get_data_hit)
next
  assume a: "get_data remote home cfg filename only w = (Inr r1, w1)"
  let ?cf = "cache_dir home @ ''/'' @ filename"
  have second: "get_data remote home cfg filename only w1
          = (Inr (if only then r1 else universal_newlines r1), w1)
        \<and> length (requests_log w1) \<le> length (requests_log w) + 1"
  proof (cases "files w ?cf")
    case (Some c)
    from a get_data_hit [OF Some, of remote cfg only]
    have r: "r1 = (if only then ?cf else universal_newlines c)" and w: "w1 = w" by simp_all
    show ?thesis
      using get_data_hit [OF Some, of remote cfg only] r w
      by (simp add: universal_newlines_idem)
  next
    case None
    show ?thesis
    proof (cases "data_url cfg filename")
      case (Inl e)
      with a None get_data_miss_keyerror [of w home filename cfg e remote only] show ?thesis by simp
    next
      case (Inr url)
      show ?thesis
      proof (cases "status_code (remote url) = 200")
        case True
        from a None Inr True get_data_miss_ok [of w home filename cfg url remote only]
        have r: "r1 = (if only then ?cf else resp_text (remote url))"
          and w: "w1 = write_text ?cf (resp_text (remote url)) (w\<lparr>requests_log := requests_log w @ [url]\<rparr>)"
          by simp_all
        have f: "files w1 ?cf = Some (resp_text (remote url))"
          by (simp add: w write_text_def)
        show ?thesis
          using get_data_hit [OF f, of remote cfg only] r
          by (simp add: w write_text_def)
      next
        case False
        with a None Inr get_data_miss_fail [of w home filename cfg url remote only] show ?thesis by simp
      qed
    qed
  qed
  from second show "get_data remote home cfg filename only w1
          = (Inr (if only then r1 else universal_newlines r1), w1)" by simp
  from second show "length (requests_log w1) \<le> length (requests_log w) + 1" by simp
  assume "CHR 0x0D \<notin> set r1"
  with second show "get_data remote home cfg filename only w1 = (Inr r1, w1)"
    by (simp add: universal_newlines_id)
qed

theorem get_data_idempotent_witness:
  "get_data (\<lambda>u. \<lparr>status_code = 200, resp_text = ''AK-Adak_Nas.tmy3''\<rparr>) ''/home/u'' default_config
      ''.index'' False
      \<lparr>files = [''/home/u/.gridlabd-weather/data/.index'' \<mapsto> ''AK-Adak_Nas.tmy3''],
       requests_log = [''https://github.com/slacgismo/gridlabd-weather/raw/master/US/.index'']\<rparr>
   = (Inr ''AK-Adak_Nas.tmy3'',
      \<lparr>files = [''/home/u/.gridlabd-weather/data/.index'' \<mapsto> ''AK-Adak_Nas.tmy3''],
       requests_log = [''https://github.com/slacgismo/gridlabd-weather/raw/master/US/.index'']\<rparr>)"
proof -
  let ?R = "\<lambda>u::string. \<lparr>status_code = 200, resp_text = ''AK-Adak_Nas.tmy3''\<rparr>"
  let ?W0 = "\<lparr>files = Map.empty, requests_log = []\<rparr>"
  let ?W1 = "\<lparr>files = [''/home/u/.gridlabd-weather/data/.index'' \<mapsto> ''AK-Adak_Nas.tmy3''],
       requests_log = [''https://github.com/slacgismo/gridlabd-weather/raw/master/US/.index'']\<rparr>"
  have first: "get_data ?R ''/home/u'' default_config ''.index'' False ?W0 = (Inr ''AK-Adak_Nas.tmy3'', ?W1)"
    by (simp add: get_data_def data_url_default cache_dir_def config_dir_def write_text_def)
  show ?thesis
    using get_data_idempotent [of ?W0 "''/home/u''" "''.index''" "''''" ?R default_config False "''AK-Adak_Nas.tmy3''" ?W1]
      first
    by simp
qed

text \<open>Two calls can request twice, and can return different texts.  When the
  server answers 404 both calls request the URL.  When the fetched text is
  \<open>a\r\nb\<close> the first call returns it as fetched and the second returns
  \<open>a\nb\<close>.\<close>

theorem get_data_idempotent_counterexample:
  "requests_log (snd (get_data (\<lambda>u. \<lparr>status_code = 404, resp_text = ''''\<rparr>) ''/home/u'' default_config ''.index'' False
      (snd (get_data (\<lambda>u. \<lparr>status_code = 404, resp_text = ''''\<rparr>) ''/home/u'' default_config ''.index'' False
         \<lparr>files = Map.empty, requests_log = []\<rparr>))))
     = [''https://github.com/slacgismo/gridlabd-weather/raw/master/US/.index'',
        ''https://github.com/slacgismo/gridlabd-weather/raw/master/US/.index'']
   \<and> fst (get_data (\<lambda>u. \<lparr>status_code = 200, resp_text = [CHR ''a'', CHR 0x0D, CHR 0x0A, CHR ''b'']\<rparr>)
          ''/home/u'' default_config ''.index'' False \<lparr>files = Map.empty, requests_log = []\<rparr>)
     = Inr [CHR ''a'', CHR 0x0D, CHR 0x0A, CHR ''b'']
   \<and> fst (get_data (\<lambda>u. \<lparr>status_code = 200, resp_text = [CHR ''a'', CHR 0x0D, CHR 0x0A, CHR ''b'']\<rparr>)
          ''/home/u'' default_config ''.index'' False
          (snd (get_data (\<lambda>u. \<lparr>status_code = 200, resp_text = [CHR ''a'', CHR 0x0D, CHR 0x0A, CHR ''b'']\<rparr>)
             ''/home/u'' default_config ''.index'' False \<lparr>files = Map.empty, requests_log = []\<rparr>)))
     = Inr [CHR ''a'', CHR 0x0A, CHR ''b'']"
  by (simp add: get_data_def data_url_default cache_dir_def config_dir_def write_text_def read_text_def)

text \<open>
  C6.  For a name that is not cached, whose URL the configuration determines
  and whose fetch answers with a status other than 200, \<open>get_data\<close> raises
  \<open>OSError(2, "file not found", cache_file)\<close> (errno 2: the file-not-found error) with the
  cache path it looked for, and the files are what they were.
\<close>

theorem get_data_not_found:
  assumes "files w (cache_dir home @ ''/'' @ filename) = None"
    and "data_url cfg filename = Inr url"
    and "status_code (remote url) \<noteq> 200"
  shows "fst (get_data remote home cfg filename only w)
           = Inl (OSError 2 ''file not found'' (cache_dir home @ ''/'' @ filename))
    \<and> files (snd (get_data remote home cfg filename only w)) = files w
    \<and> files (snd (get_data remote home cfg filename only w)) (cache_dir home @ ''/'' @ filename) = None"
  using assms get_data_miss_fail [of w home filename cfg url remote only] by simp

theorem get_data_not_found_witness:
  "fst (get_data (\<lambda>u. \<lparr>status_code = 404, resp_text = ''Not Found''\<rparr>) ''/home/u'' default_config
          ''XX-Nowhere.tmy3'' True \<lparr>files = Map.empty, requests_log = []\<rparr>)
     = Inl (OSError 2 ''file not found'' ''/home/u/.gridlabd-weather/data/XX-Nowhere.tmy3'')
   \<and> files (snd (get_data (\<lambda>u. \<lparr>status_code = 404, resp_text = ''Not Found''\<rparr>) ''/home/u'' default_config
          ''XX-Nowhere.tmy3'' True \<lparr>files = Map.empty, requests_log = []\<rparr>)) = Map.empty"
  using get_data_not_found [of "\<lparr>files = Map.empty, requests_log = []\<rparr>" "''/home/u''" "''XX-Nowhere.tmy3''"
      default_config "''https://github.com/slacgismo/gridlabd-weather/raw/master/US/XX-Nowhere.tmy3''"
      "\<lambda>u. \<lparr>status_code = 404, resp_text = ''Not Found''\<rparr>" True]
  by (simp add: data_url_default cache_dir_def config_dir_def)

subsection \<open>The station index\<close>

text \<open>
  C8.  For an index whose content is empty, fetched or cached, \<open>get_index\<close>
  returns the list with the empty string as its one entry: \<open>strip\<close> removes a
  newline at the end, but splitting the empty string gives one empty piece.
  With names in the content the result is sorted, with no empty entry, whether
  or not the content ends in a newline.
\<close>

theorem get_index_empty_content:
  "fst (get_index (\<lambda>u. \<lparr>status_code = 200, resp_text = ''''\<rparr>) ''/home/u'' default_config
          \<lparr>files = Map.empty, requests_log = []\<rparr>) = Inr ['''']
   \<and> fst (get_index (\<lambda>u. \<lparr>status_code = 200, resp_text = ''''\<rparr>) ''/home/u'' default_config
          \<lparr>files = [''/home/u/.gridlabd-weather/data/.index'' \<mapsto> [CHR 0x0A]], requests_log = []\<rparr>) = Inr ['''']
   \<and> fst (get_index (\<lambda>u. \<lparr>status_code = 200, resp_text = ''b'' @ [CHR 0x0A] @ ''a'' @ [CHR 0x0A]\<rparr>)
          ''/home/u'' default_config \<lparr>files = Map.empty, requests_log = []\<rparr>) = Inr [''a'', ''b'']
   \<and> fst (get_index (\<lambda>u. \<lparr>status_code = 200, resp_text = ''b'' @ [CHR 0x0A] @ ''a''\<rparr>)
          ''/home/u'' default_config \<lparr>files = Map.empty, requests_log = []\<rparr>) = Inr [''a'', ''b'']"
  by (simp add: get_index_def get_data_def data_url_default index_name_default
      cache_dir_def config_dir_def write_text_def read_text_def strip_def is_space_def
      less_eq_char_def)

subsection \<open>The configuration\<close>


subsection \<open>Reading the station line\<close>







subsection \<open>Reading the data block\<close>
















subsection \<open>The number of rows\<close>


subsection \<open>The calendar of a station file\<close>













subsection \<open>The example files\<close>












subsection \<open>Loading station files\<close>







end
